theory Spec2Isabelle
  imports Main "HOL-Library.Word"
begin

section \<open>Addresses: the part of Go's package net that getLANIP uses\<close>

text \<open>
  The launcher is a single Go file (\<^verbatim>\<open>main.go\<close>). The repository holds two variants of
  it. The model follows the one that embeds the web bundle; the other serves \<^verbatim>\<open>./dist\<close>
  from the file system, has no \<^verbatim>\<open>fs.Sub\<close> call (the case \<open>sub_err = None\<close> below) and
  sets the tray icon only when its file can be read. \<^verbatim>\<open>getLANIP\<close>, \<^verbatim>\<open>openBrowser\<close>,
  the dispatch loop and \<^verbatim>\<open>main\<close> are the same in both.

  The function \<^verbatim>\<open>getLANIP\<close> walks the
  result of \<^verbatim>\<open>net.InterfaceAddrs()\<close>, a slice of \<^verbatim>\<open>net.Addr\<close> values. On the
  platforms Go supports the dynamic type of an element is \<^verbatim>\<open>*net.IPNet\<close> (a unicast
  address with its mask) or \<^verbatim>\<open>*net.IPAddr\<close> (for instance an anycast address on
  Windows). A \<^verbatim>\<open>net.IP\<close> is a byte slice of length 4 or 16.

  The methods \<^verbatim>\<open>To4\<close>, \<^verbatim>\<open>IsLoopback\<close> and \<^verbatim>\<open>String\<close> belong to Go's standard
  library, not to the repository; they are written out below as that library documents
  them, so that \<^verbatim>\<open>getLANIP\<close> can be evaluated on concrete addresses.
\<close>

type_synonym IP = "8 word list"

datatype Addr = IPNet IP IP | IPAddr IP

definition isZeros :: "8 word list \<Rightarrow> bool" where
  "isZeros p = list_all (\<lambda>b. b = 0) p"

definition To4 :: "IP \<Rightarrow> IP option" where
  \<comment> \<open>\<^verbatim>\<open>ip.To4()\<close>: the 4-byte form of an IPv4 address, \<^verbatim>\<open>nil\<close> (here \<open>None\<close>) otherwise.\<close>
  "To4 ip =
     (if length ip = 4 then Some ip
      else if length ip = 16 \<and> isZeros (take 10 ip) \<and> ip ! 10 = 0xff \<and> ip ! 11 = 0xff
        then Some (drop 12 ip)
      else None)"

definition IPv6loopback :: IP where
  "IPv6loopback = replicate 15 0 @ [1]"

definition IsLoopback :: "IP \<Rightarrow> bool" where
  \<comment> \<open>\<^verbatim>\<open>ip.IsLoopback()\<close>: 127.0.0.0/8 for IPv4, \<^verbatim>\<open>::1\<close> for IPv6.\<close>
  "IsLoopback ip = (case To4 ip of Some ip4 \<Rightarrow> ip4 ! 0 = 127 | None \<Rightarrow> ip = IPv6loopback)"

definition digit :: "nat \<Rightarrow> char" where
  "digit d = ''0123456789'' ! d"

fun uitoa :: "nat \<Rightarrow> string" where
  "uitoa n = (if n < 10 then [digit n] else uitoa (n div 10) @ [digit (n mod 10)])"

declare uitoa.simps [simp del]

definition IP_String :: "IP \<Rightarrow> string" where
  \<comment> \<open>\<^verbatim>\<open>ip.String()\<close> on a 4-byte address, the only form \<^verbatim>\<open>getLANIP\<close> passes to it:
      dotted decimal. The other forms (\<^verbatim>\<open><nil>\<close>, IPv6 text) are not reached from this
      program and are not written out.\<close>
  "IP_String ip =
     (case ip of
        [a, b, c, d] \<Rightarrow>
          uitoa (unat a) @ ''.'' @ uitoa (unat b) @ ''.'' @ uitoa (unat c) @ ''.'' @ uitoa (unat d)
      | _ \<Rightarrow> ''?'')"

section \<open>getLANIP\<close>

text \<open>
  \<^verbatim>\<open>
  func getLANIP() string {
      addrs, err := net.InterfaceAddrs()
      if err != nil { return "" }
      for _, addr := range addrs {
          if ipnet, ok := addr.(*net.IPNet); ok && !ipnet.IP.IsLoopback() {
              if ip4 := ipnet.IP.To4(); ip4 != nil { return ip4.String() }
          }
      }
      return ""
  }
  \<close>
  The model takes the result of \<^verbatim>\<open>net.InterfaceAddrs()\<close> as its argument: \<open>Inl err\<close>
  when the call fails, \<open>Inr addrs\<close> otherwise.
\<close>

fun getLANIP_loop :: "Addr list \<Rightarrow> string" where
  "getLANIP_loop [] = ''''"
| "getLANIP_loop (IPNet ip msk # addrs) =
     (if \<not> IsLoopback ip
      then (case To4 ip of Some ip4 \<Rightarrow> IP_String ip4 | None \<Rightarrow> getLANIP_loop addrs)
      else getLANIP_loop addrs)"
| "getLANIP_loop (IPAddr ip # addrs) = getLANIP_loop addrs"

definition getLANIP :: "string + Addr list \<Rightarrow> string" where
  "getLANIP r = (case r of Inl err \<Rightarrow> '''' | Inr addrs \<Rightarrow> getLANIP_loop addrs)"

section \<open>Effects of the launcher\<close>

text \<open>
  Everything the program does to the outside world is recorded as an event, in program
  order: what it prints and logs, the external commands it starts, the file the QR
  encoder writes, the calls into the tray library, the launch of the server task, the
  assignment to the global variable \<^verbatim>\<open>lanURL\<close> and the termination of the process.
\<close>

datatype RecoveryLevel = Low | Medium | High | Highest

datatype event =
    Assign_lanURL string
  | Println string
  | Log string
  | OsExit int
  | Start string "string list"
  | Run string "string list" "string option"
  | QRWriteFile string RecoveryLevel int string
  | HttpHandle string
  | GoServer
  | ListenAndServe string
  | SetIcon
  | SetTitle string
  | SetTooltip string
  | AddMenuItem string string
  | GoLoop
  | SystrayQuit

text \<open>
  \<open>Start name args\<close> is \<^verbatim>\<open>exec.Command(name, args...).Start()\<close>;
  \<open>Run name args stdin\<close> is \<^verbatim>\<open>exec.Command(name, args...)\<close> with its \<^verbatim>\<open>Stdin\<close> set
  (or left unset, \<open>None\<close>) followed by \<^verbatim>\<open>.Run()\<close>;
  \<open>Log line\<close> is a line written by Go's standard logger (\<^verbatim>\<open>log.Println\<close>, or the
  printing half of \<^verbatim>\<open>log.Fatal\<close>, whose other half is \<open>OsExit 1\<close>), without the
  logger's date and time prefix.

  The four menu items of the tray are \<^verbatim>\<open>mOpen\<close> ("Open App"), \<^verbatim>\<open>mCopy\<close>
  ("Copy LAN URL"), \<^verbatim>\<open>mQR\<close> ("Show QR Code") and \<^verbatim>\<open>mQuit\<close> ("Quit"); a click
  names the item whose \<^verbatim>\<open>ClickedCh\<close> channel the \<^verbatim>\<open>select\<close> statement received from.
  They are the variants OpenApp, CopyURL, ShowQR and Quit of the specification's MenuAction.
\<close>

datatype click = mOpen | mCopy | mQR | mQuit

text \<open>
  What the outside world answers while one click is handled: the error, if any, returned
  by \<^verbatim>\<open>Start()\<close> of the opener, by \<^verbatim>\<open>Run()\<close> of the clipboard command and by
  \<^verbatim>\<open>qrcode.WriteFile\<close>. A handler makes each of these calls at most once.
\<close>

record outcome =
  start_err :: "string option"
  run_err :: "string option"
  write_err :: "string option"

definition all_ok :: outcome where
  "all_ok = \<lparr>start_err = None, run_err = None, write_err = None\<rparr>"

subsection \<open>openBrowser\<close>

text \<open>
  \<^verbatim>\<open>
  func openBrowser(url string) {
      var err error
      switch runtime.GOOS {
      case "linux":   err = exec.Command("xdg-open", url).Start()
      case "windows": err = exec.Command("rundll32", "url.dll,FileProtocolHandler", url).Start()
      case "darwin":  err = exec.Command("open", url).Start()
      }
      if err != nil { log.Println("Failed to open browser:", err) }
  }
  \<close>
  On any other operating system no command is started and \<^verbatim>\<open>err\<close> stays \<^verbatim>\<open>nil\<close>.
\<close>

definition failed_to_open :: "string option \<Rightarrow> event list" where
  "failed_to_open err =
     (case err of None \<Rightarrow> [] | Some e \<Rightarrow> [Log (''Failed to open browser: '' @ e)])"

definition openBrowser :: "string \<Rightarrow> string \<Rightarrow> string option \<Rightarrow> event list" where
  "openBrowser os url err =
     (if os = ''linux'' then Start ''xdg-open'' [url] # failed_to_open err
      else if os = ''windows''
        then Start ''rundll32'' [''url.dll,FileProtocolHandler'', url] # failed_to_open err
      else if os = ''darwin'' then Start ''open'' [url] # failed_to_open err
      else [])"

subsection \<open>The dispatch loop of onReady\<close>

text \<open>
  \<^verbatim>\<open>
  for {
      select {
      case <-mOpen.ClickedCh:
          openBrowser("http://localhost:8000")
      case <-mCopy.ClickedCh:
          if runtime.GOOS == "windows" {
              exec.Command("cmd", "/c", "echo "+lanURL+"| clip").Run()
          } else if runtime.GOOS == "darwin" {
              cmd := exec.Command("pbcopy"); cmd.Stdin = strings.NewReader(lanURL); cmd.Run()
          } else {
              cmd := exec.Command("xclip", "-selection", "clipboard")
              cmd.Stdin = strings.NewReader(lanURL); cmd.Run()
          }
      case <-mQR.ClickedCh:
          file := "lan_qr.png"
          _ = qrcode.WriteFile(lanURL, qrcode.Medium, 256, file)
          openBrowser(file)
      case <-mQuit.ClickedCh:
          systray.Quit()
          return
      }
  }
  \<close>
  \<open>on_click\<close> is the body of the case selected for one click; it reads the global
  \<^verbatim>\<open>lanURL\<close> and the outcome of its external calls. The results of \<^verbatim>\<open>Run()\<close> and of
  \<^verbatim>\<open>qrcode.WriteFile\<close> are discarded by the source, so \<open>run_err\<close> and \<open>write_err\<close>
  are not read.
\<close>

definition on_click :: "string \<Rightarrow> string \<Rightarrow> click \<Rightarrow> outcome \<Rightarrow> event list" where
  "on_click os lanURL c oc =
     (case c of
        mOpen \<Rightarrow> openBrowser os ''http://localhost:8000'' (start_err oc)
      | mCopy \<Rightarrow>
          (if os = ''windows'' then [Run ''cmd'' [''/c'', ''echo '' @ lanURL @ ''| clip''] None]
           else if os = ''darwin'' then [Run ''pbcopy'' [] (Some lanURL)]
           else [Run ''xclip'' [''-selection'', ''clipboard''] (Some lanURL)])
      | mQR \<Rightarrow>
          QRWriteFile lanURL Medium 256 ''lan_qr.png''
            # openBrowser os ''lan_qr.png'' (start_err oc)
      | mQuit \<Rightarrow> [SystrayQuit])"

text \<open>
  The loop consumes the clicks in the order in which \<^verbatim>\<open>select\<close> receives them. It
  returns the handled clicks, each with the events of its handler, and whether it has
  returned (after Quit) or is blocked in \<^verbatim>\<open>select\<close> because no click is left.
\<close>

datatype loop_state = Waiting | Returned

fun select_loop ::
  "string \<Rightarrow> string \<Rightarrow> (click \<times> outcome) list \<Rightarrow> (click \<times> event list) list \<times> loop_state" where
  "select_loop os lanURL [] = ([], Waiting)"
| "select_loop os lanURL ((c, oc) # rest) =
     (if c = mQuit then ([(c, on_click os lanURL c oc)], Returned)
      else (case select_loop os lanURL rest of
              (hs, st) \<Rightarrow> ((c, on_click os lanURL c oc) # hs, st)))"

definition onReady_setup :: "event list" where
  "onReady_setup =
     [SetIcon, SetTitle ''React Server'', SetTooltip ''Serving your React app'',
      AddMenuItem ''Open App'' ''Open in browser'',
      AddMenuItem ''Copy LAN URL'' ''Copy link to clipboard'',
      AddMenuItem ''Show QR Code'' ''Open QR code for phone'',
      AddMenuItem ''Quit'' ''Stop the server'',
      GoLoop]"

subsection \<open>startServer and the server task\<close>

text \<open>
  \<^verbatim>\<open>
  func startServer() {
      distFS, err := fs.Sub(distFiles, "dist")
      if err != nil { log.Fatal("Failed to get dist subdirectory:", err) }
      fs := http.FileServer(http.FS(distFS))
      http.Handle("/", fs)
      go func() { log.Fatal(http.ListenAndServe(":8000", nil)) }()
  }
  \<close>
  \<open>startServer\<close> takes the error of \<^verbatim>\<open>fs.Sub\<close>, if any, and returns its events and
  whether the process goes on. The launched task calls \<^verbatim>\<open>http.ListenAndServe\<close> once;
  that call either serves for the rest of the process's life (\<open>None\<close>) or returns an
  error, for instance because the port cannot be bound (\<open>Some e\<close>), which
  \<^verbatim>\<open>log.Fatal\<close> logs before it ends the process with status 1.
\<close>

datatype status = Running | Exited int

definition startServer :: "string option \<Rightarrow> event list \<times> status" where
  "startServer sub_err =
     (case sub_err of
        Some e \<Rightarrow> ([Log (''Failed to get dist subdirectory:'' @ e), OsExit 1], Exited 1)
      | None \<Rightarrow> ([HttpHandle ''/'', GoServer], Running))"

definition serve_task :: "string option \<Rightarrow> event list" where
  "serve_task r =
     ListenAndServe '':8000'' # (case r of None \<Rightarrow> [] | Some e \<Rightarrow> [Log e, OsExit 1])"

subsection \<open>main\<close>

text \<open>
  \<^verbatim>\<open>
  func main() {
      port := 8000
      lanIP := getLANIP()
      lanURL = fmt.Sprintf("http://%s:%d", lanIP, port)
      fmt.Println("Serving at:", lanURL)
      startServer()
      systray.Run(onReady, func() {})
  }
  \<close>
  The environment of a run: the operating system name (\<^verbatim>\<open>runtime.GOOS\<close>), the result of
  \<^verbatim>\<open>net.InterfaceAddrs()\<close>, the error of \<^verbatim>\<open>fs.Sub\<close> if any, and the fate of the server
  task: \<open>None\<close> when \<^verbatim>\<open>http.ListenAndServe\<close> never returns, \<open>Some (k, e)\<close> when it
  returns the error \<open>e\<close> and the dispatch loop has handled at most \<open>k\<close> clicks by then
  (\<open>k = 0\<close> for a port that is already taken at start-up).

  \<^verbatim>\<open>systray.Run\<close> runs \<^verbatim>\<open>onReady\<close>, which sets the menu up and launches the dispatch
  loop, and blocks until \<^verbatim>\<open>systray.Quit()\<close> is called; \<^verbatim>\<open>main\<close> returns with it.
  The process ends with status 0 when \<^verbatim>\<open>systray.Run\<close> returns after Quit, with status 1
  through \<^verbatim>\<open>log.Fatal\<close>; it is still running when the loop waits for a click and the
  server serves. The events of the main and dispatch goroutines and those of the server
  task are kept apart, as the source fixes no order between them.

  The end of the process through the server task is placed between two clicks only:
  \<open>main_trace\<close> always holds the whole set-up of \<^verbatim>\<open>onReady\<close>. A process that
  \<^verbatim>\<open>log.Fatal\<close> ends while the set-up is still running has issued a prefix of that
  trace, from the assignment of \<^verbatim>\<open>lanURL\<close> onwards; the model does not cut inside the
  set-up.
\<close>

definition itoa :: "int \<Rightarrow> string" where
  "itoa i = (if i < 0 then ''-'' @ uitoa (nat (- i)) else uitoa (nat i))"

definition format_url :: "string \<Rightarrow> int \<Rightarrow> string" where
  \<comment> \<open>\<^verbatim>\<open>fmt.Sprintf("http://%s:%d", lanIP, port)\<close>\<close>
  "format_url lanIP port = ''http://'' @ lanIP @ '':'' @ itoa port"

record env =
  goos :: string
  ifaddrs :: "string + Addr list"
  sub_err :: "string option"
  listen :: "(nat \<times> string) option"

record process =
  main_trace :: "event list"
  server_trace :: "event list"
  status :: status

definition seen_clicks :: "env \<Rightarrow> (click \<times> outcome) list \<Rightarrow> (click \<times> outcome) list" where
  \<comment> \<open>the clicks the loop gets to receive before the server task ends the process\<close>
  "seen_clicks env clicks =
     (case listen env of None \<Rightarrow> clicks | Some (k, e) \<Rightarrow> take k clicks)"

definition main :: "env \<Rightarrow> (click \<times> outcome) list \<Rightarrow> process" where
  "main env clicks =
     (let port = 8000;
          lanIP = getLANIP (ifaddrs env);
          lanURL = format_url lanIP port;
          boot = [Assign_lanURL lanURL, Println (''Serving at: '' @ lanURL)];
          (started, st) = startServer (sub_err env)
      in if st \<noteq> Running
         then \<lparr>main_trace = boot @ started, server_trace = [], status = st\<rparr>
         else
           let (hs, ls) = select_loop (goos env) lanURL (seen_clicks env clicks);
               tray = onReady_setup @ concat (map snd hs)
           in if ls = Returned
              then \<lparr>main_trace = boot @ started @ tray, server_trace = serve_task None,
                    status = Exited 0\<rparr>
              else (case listen env of
                      None \<Rightarrow>
                        \<lparr>main_trace = boot @ started @ tray, server_trace = serve_task None,
                         status = Running\<rparr>
                    | Some (k, e) \<Rightarrow>
                        \<lparr>main_trace = boot @ started @ tray,
                         server_trace = serve_task (Some e), status = Exited 1\<rparr>))"

section \<open>Notions used in the statements\<close>

text \<open>
  The address carried by an entry, whatever its kind, and the entries the statements
  speak of: an entry holds a non-loopback IPv4 address when its address is not a loopback
  address and has a 4-byte form; it qualifies for \<^verbatim>\<open>getLANIP\<close> when, in addition, it
  is an \<^verbatim>\<open>*net.IPNet\<close>. \<open>host_of\<close> is the text of an entry's IPv4 address.
\<close>

definition addr_ip :: "Addr \<Rightarrow> IP" where
  "addr_ip a = (case a of IPNet ip m \<Rightarrow> ip | IPAddr ip \<Rightarrow> ip)"

definition nonloopback_ipv4 :: "Addr \<Rightarrow> bool" where
  "nonloopback_ipv4 a = (\<not> IsLoopback (addr_ip a) \<and> To4 (addr_ip a) \<noteq> None)"

definition qualifies :: "Addr \<Rightarrow> bool" where
  "qualifies a = (case a of IPNet ip m \<Rightarrow> nonloopback_ipv4 a | IPAddr ip \<Rightarrow> False)"

definition host_of :: "Addr \<Rightarrow> string" where
  "host_of a = (case To4 (addr_ip a) of Some ip4 \<Rightarrow> IP_String ip4 | None \<Rightarrow> [])"

text \<open>
  The clicks up to and including the first Quit; the handler entry the loop records for
  a click; the same clicks with every external call succeeding; and the kinds of event
  the statements count.
\<close>

fun upto_quit :: "(click \<times> outcome) list \<Rightarrow> (click \<times> outcome) list" where
  "upto_quit [] = []"
| "upto_quit ((c, oc) # rest) = (if c = mQuit then [(c, oc)] else (c, oc) # upto_quit rest)"

definition handler :: "string \<Rightarrow> string \<Rightarrow> click \<times> outcome \<Rightarrow> click \<times> event list" where
  "handler os lanURL p = (fst p, on_click os lanURL (fst p) (snd p))"

definition succeeding :: "(click \<times> outcome) list \<Rightarrow> (click \<times> outcome) list" where
  "succeeding clicks = map (\<lambda>p. (fst p, all_ok)) clicks"

definition supported :: "string \<Rightarrow> bool" where
  "supported os = (os = ''linux'' \<or> os = ''windows'' \<or> os = ''darwin'')"

definition opener_log :: "string \<Rightarrow> click \<Rightarrow> outcome \<Rightarrow> event list" where
  \<comment> \<open>the log lines the statements expect of a handler: one line, and only for a failed
      start of the opener on a supported system\<close>
  "opener_log os c oc =
     (if (c = mOpen \<or> c = mQR) \<and> supported os
      then (case start_err oc of
              None \<Rightarrow> []
            | Some e \<Rightarrow> [Log (''Failed to open browser: '' @ e)])
      else [])"

definition is_log :: "event \<Rightarrow> bool" where
  "is_log ev = (case ev of Log s \<Rightarrow> True | _ \<Rightarrow> False)"

definition is_assign :: "event \<Rightarrow> bool" where
  "is_assign ev = (case ev of Assign_lanURL s \<Rightarrow> True | _ \<Rightarrow> False)"

definition is_call :: "event \<Rightarrow> bool" where
  \<comment> \<open>an external invocation: a started or run command, or the QR file write\<close>
  "is_call ev =
     (case ev of Start n as \<Rightarrow> True | Run n as i \<Rightarrow> True | QRWriteFile s l n f \<Rightarrow> True
      | _ \<Rightarrow> False)"

definition still_serving :: "env \<Rightarrow> nat \<Rightarrow> bool" where
  \<comment> \<open>the server task has not ended the process before \<open>n\<close> clicks are handled\<close>
  "still_serving env n = (case listen env of None \<Rightarrow> True | Some (k, e) \<Rightarrow> n \<le> k)"

section \<open>Lemmas about the model\<close>

lemma itoa_8000: "itoa 8000 = ''8000''"
  by (simp add: itoa_def uitoa.simps digit_def)

lemma format_url_8000: "format_url h 8000 = ''http://'' @ h @ '':8000''"
  by (simp add: format_url_def itoa_8000)

lemma To4_length: "To4 ip = Some ip4 \<Longrightarrow> length ip4 = 4"
  by (auto simp: To4_def split: if_splits)

lemma IP_String_nonempty: "length ip4 = 4 \<Longrightarrow> IP_String ip4 \<noteq> []"
  by (auto simp: IP_String_def split: list.splits)

lemma host_of_nonempty: "qualifies a \<Longrightarrow> host_of a \<noteq> []"
  by (auto simp: qualifies_def host_of_def nonloopback_ipv4_def addr_ip_def
      dest!: To4_length IP_String_nonempty split: Addr.splits option.splits)

lemma getLANIP_loop_find:
  "getLANIP_loop addrs = (case find qualifies addrs of None \<Rightarrow> [] | Some a \<Rightarrow> host_of a)"
proof (induction addrs rule: getLANIP_loop.induct)
  case 1
  show ?case by simp
next
  case (2 ip msk addrs)
  then show ?case
    by (auto simp: qualifies_def nonloopback_ipv4_def addr_ip_def host_of_def split: option.splits)
next
  case (3 ip addrs)
  then show ?case by (simp add: qualifies_def)
qed

lemma select_loop_handled:
  "fst (select_loop os url clicks) = map (handler os url) (upto_quit clicks)"
  by (induction clicks rule: upto_quit.induct) (auto simp: handler_def split: prod.splits)

lemma select_loop_state:
  "snd (select_loop os url clicks) = (if mQuit \<in> fst ` set clicks then Returned else Waiting)"
  by (induction clicks rule: upto_quit.induct) (auto split: prod.splits)

lemma upto_quit_all:
  "mQuit \<notin> set (butlast (map fst clicks)) \<Longrightarrow> upto_quit clicks = clicks"
proof (induction clicks rule: upto_quit.induct)
  case 1
  show ?case by simp
next
  case (2 c oc rest)
  then show ?case by (cases rest) (auto split: if_splits)
qed

lemma upto_quit_succeeding:
  "map fst (upto_quit (succeeding clicks)) = map fst (upto_quit clicks)"
  by (induction clicks rule: upto_quit.induct) (auto simp: succeeding_def)

lemma openBrowser_log:
  "openBrowser os url err
     = openBrowser os url None @ (if supported os then failed_to_open err else [])"
  by (simp add: openBrowser_def supported_def failed_to_open_def)

lemma on_click_log:
  "on_click os url c oc = on_click os url c all_ok @ opener_log os c oc"
  by (cases c)
    (simp_all add: on_click_def opener_log_def all_ok_def failed_to_open_def
      openBrowser_log [of os _ "start_err oc"])

lemma on_click_ok_no_log: "filter is_log (on_click os url c all_ok) = []"
  by (cases c)
    (simp_all add: on_click_def openBrowser_def failed_to_open_def all_ok_def is_log_def)

lemma opener_log_is_log: "filter is_log (opener_log os c oc) = opener_log os c oc"
  unfolding opener_log_def
  by (cases "start_err oc"; cases "c = mOpen \<or> c = mQR"; cases "supported os";
      simp add: is_log_def)

lemma on_click_logged: "filter is_log (on_click os url c oc) = opener_log os c oc"
proof -
  have "filter is_log (on_click os url c oc)
      = filter is_log (on_click os url c all_ok) @ filter is_log (opener_log os c oc)"
    using on_click_log [of os url c oc] by (metis filter_append)
  then show ?thesis
    by (simp add: on_click_ok_no_log opener_log_is_log)
qed

lemma on_click_no_assign: "filter is_assign (on_click os url c oc) = []"
  by (cases c)
    (auto simp: on_click_def openBrowser_def failed_to_open_def is_assign_def
      split: option.splits)

lemma handler_events:
  "concat (map snd (map (handler os url) cs))
      = concat (map (\<lambda>p. on_click os url (fst p) (snd p)) cs)"
  by (induction cs) (simp_all add: handler_def)

lemma main_trace_eq:
  "main_trace (main env clicks) =
     [Assign_lanURL (format_url (getLANIP (ifaddrs env)) 8000),
      Println (''Serving at: '' @ format_url (getLANIP (ifaddrs env)) 8000)]
     @ fst (startServer (sub_err env))
     @ (if sub_err env = None
        then onReady_setup
          @ concat (map (\<lambda>p. on_click (goos env) (format_url (getLANIP (ifaddrs env)) 8000)
                (fst p) (snd p)) (upto_quit (seen_clicks env clicks)))
        else [])"
proof -
  define U where "U = format_url (getLANIP (ifaddrs env)) 8000"
  obtain hs ls where l: "select_loop (goos env) U (seen_clicks env clicks) = (hs, ls)"
    by (cases "select_loop (goos env) U (seen_clicks env clicks)")
  then have hs: "hs = map (handler (goos env) U) (upto_quit (seen_clicks env clicks))"
    using select_loop_handled [of "goos env" U "seen_clicks env clicks"] by simp
  have t: "concat (map snd hs) = concat (map (\<lambda>p. on_click (goos env) U
                (fst p) (snd p)) (upto_quit (seen_clicks env clicks)))"
    unfolding hs by (rule handler_events)
  show ?thesis
    unfolding U_def [symmetric] using l t
    by (cases "sub_err env"; cases "listen env")
      (simp_all add: main_def Let_def startServer_def U_def [symmetric] split: prod.splits)
qed

lemma status_eq:
  "status (main env clicks) =
     (if sub_err env \<noteq> None then Exited 1
      else if mQuit \<in> fst ` set (seen_clicks env clicks) then Exited 0
      else if listen env = None then Running else Exited 1)"
proof -
  define U where "U = format_url (getLANIP (ifaddrs env)) 8000"
  obtain hs ls where l: "select_loop (goos env) U (seen_clicks env clicks) = (hs, ls)"
    by (cases "select_loop (goos env) U (seen_clicks env clicks)")
  then have ls: "ls = (if mQuit \<in> fst ` set (seen_clicks env clicks) then Returned else Waiting)"
    using select_loop_state [of "goos env" U "seen_clicks env clicks"] by simp
  show ?thesis
    using l ls
    by (cases "sub_err env"; cases "listen env")
      (auto simp: main_def Let_def startServer_def U_def [symmetric] split: prod.splits)
qed

lemma seen_clicks_prefix:
  "still_serving env (length pre) \<Longrightarrow> mQuit \<in> fst ` set pre
    \<Longrightarrow> upto_quit (seen_clicks env (pre @ rest)) = upto_quit pre
      \<and> mQuit \<in> fst ` set (seen_clicks env (pre @ rest))"
proof -
  have u: "mQuit \<in> fst ` set p \<Longrightarrow> upto_quit (p @ r) = upto_quit p" for p r
    by (induction p rule: upto_quit.induct) auto
  assume a: "still_serving env (length pre)" and q: "mQuit \<in> fst ` set pre"
  show ?thesis
  proof (cases "listen env")
    case None
    then show ?thesis using q u [of pre rest] by (auto simp: seen_clicks_def)
  next
    case (Some ke)
    obtain k e where ke: "ke = (k, e)" by (cases ke)
    with Some a have "length pre \<le> k" by (simp add: still_serving_def)
    then have "take k (pre @ rest) = pre @ take (k - length pre) rest" by simp
    then show ?thesis
      using Some ke q u [of pre "take (k - length pre) rest"] by (auto simp: seen_clicks_def)
  qed
qed

lemma opener_log_no_call: "filter is_call (opener_log os c oc) = []"
  unfolding opener_log_def
  by (cases "start_err oc"; cases "c = mOpen \<or> c = mQR"; cases "supported os";
      simp add: is_call_def)

lemma on_click_calls:
  "filter is_call (on_click os url c oc) = filter is_call (on_click os url c all_ok)"
  using on_click_log [of os url c oc] by (simp add: opener_log_no_call)

lemma upto_quit_succeeding_calls:
  "filter is_call (concat (map (\<lambda>p. on_click os url (fst p) (snd p)) (upto_quit (succeeding cs))))
   = filter is_call (concat (map (\<lambda>p. on_click os url (fst p) (snd p)) (upto_quit cs)))"
proof (induction cs rule: upto_quit.induct)
  case 1
  show ?case by (simp add: succeeding_def)
next
  case (2 c oc rest)
  have s: "succeeding ((x, oc) # rest) = (x, all_ok) # succeeding rest" for x
    by (simp add: succeeding_def)
  have e: "filter is_call (on_click os url x all_ok) = filter is_call (on_click os url x oc)" for x
    by (rule on_click_calls [symmetric])
  show ?case
  proof (cases "c = mQuit")
    case True
    then show ?thesis by (simp add: s e)
  next
    case False
    with 2 show ?thesis by (simp add: s e)
  qed
qed

lemma seen_clicks_succeeding:
  "seen_clicks env (succeeding clicks) = succeeding (seen_clicks env clicks)"
  by (simp add: seen_clicks_def succeeding_def take_map split: option.splits)

lemma succeeding_clicks: "fst ` set (succeeding cs) = fst ` set cs"
  by (induction cs) (simp_all add: succeeding_def)

section \<open>The claims\<close>

subsection \<open>C3: the host chosen by getLANIP\<close>

text \<open>
  C3, as amended. \<^verbatim>\<open>getLANIP\<close> walks the interface addresses in order. When some entry
  is an \<^verbatim>\<open>*net.IPNet\<close> holding a non-loopback IPv4 address, it returns the text of the
  first such entry's address, and that text is not empty. When no entry is one, it
  returns the empty host; it does so too when the enumeration itself fails. No case
  raises an error: the function is total.
\<close>

theorem getLANIP_first_qualifying:
  "(\<forall>a. find qualifies addrs = Some a \<longrightarrow>
        getLANIP (Inr addrs) = host_of a \<and> getLANIP (Inr addrs) \<noteq> [])
   \<and> (find qualifies addrs = None \<longrightarrow> getLANIP (Inr addrs) = [])
   \<and> getLANIP (Inl err) = []"
proof -
  have "find qualifies addrs = Some a \<Longrightarrow> qualifies a" for a
    by (auto simp: find_Some_iff)
  then show ?thesis
    by (auto simp: getLANIP_def getLANIP_loop_find dest: host_of_nonempty)
qed

text \<open>
  The theorem at the specification's scenario, with an \<^verbatim>\<open>*net.IPAddr\<close> entry and a
  second qualifying entry added: the loopback entry and the \<^verbatim>\<open>*net.IPAddr\<close> are
  passed over and the host is 192.168.1.5. With the loopback entry alone the host is
  empty.
\<close>

theorem getLANIP_first_qualifying_witness:
  "find qualifies
     [IPNet [127,0,0,1] [255,0,0,0], IPAddr [10,0,0,9],
      IPNet [192,168,1,5] [255,255,255,0], IPNet [10,0,0,2] [255,0,0,0]]
     = Some (IPNet [192,168,1,5] [255,255,255,0])
   \<and> getLANIP (Inr
     [IPNet [127,0,0,1] [255,0,0,0], IPAddr [10,0,0,9],
      IPNet [192,168,1,5] [255,255,255,0], IPNet [10,0,0,2] [255,0,0,0]])
     = ''192.168.1.5''
   \<and> find qualifies [IPNet [127,0,0,1] [255,0,0,0]] = None
   \<and> getLANIP (Inr [IPNet [127,0,0,1] [255,0,0,0]]) = []"
proof -
  have h1: "find qualifies
     [IPNet [127,0,0,1] [255,0,0,0], IPAddr [10,0,0,9],
      IPNet [192,168,1,5] [255,255,255,0], IPNet [10,0,0,2] [255,0,0,0]]
     = Some (IPNet [192,168,1,5] [255,255,255,0])"
    by (simp add: qualifies_def nonloopback_ipv4_def addr_ip_def To4_def IsLoopback_def)
  have h2: "find qualifies [IPNet [127,0,0,1] [255,0,0,0]] = None"
    by (simp add: qualifies_def nonloopback_ipv4_def addr_ip_def To4_def IsLoopback_def)
  have h3: "host_of (IPNet [192,168,1,5] [255,255,255,0]) = ''192.168.1.5''"
    by (simp add: host_of_def addr_ip_def To4_def IP_String_def uitoa.simps digit_def)
  show ?thesis
    using getLANIP_first_qualifying [of
        "[IPNet [127,0,0,1] [255,0,0,0], IPAddr [10,0,0,9],
          IPNet [192,168,1,5] [255,255,255,0], IPNet [10,0,0,2] [255,0,0,0]]"]
      getLANIP_first_qualifying [of "[IPNet [127,0,0,1] [255,0,0,0]]"] h1 h2 h3
    by simp
qed

text \<open>
  C3 as stated fails: an interface list whose only entry is an \<^verbatim>\<open>*net.IPAddr\<close>
  holding the non-loopback IPv4 address 192.168.1.5 contains such an address, and the
  type assertion \<^verbatim>\<open>addr.(*net.IPNet)\<close> passes it over, so the host is empty.
\<close>

theorem getLANIP_skips_IPAddr:
  "nonloopback_ipv4 (IPAddr [192,168,1,5]) \<and> getLANIP (Inr [IPAddr [192,168,1,5]]) = []"
  by (simp add: nonloopback_ipv4_def addr_ip_def To4_def IsLoopback_def getLANIP_def)

subsection \<open>C4: a listener that cannot bind\<close>

text \<open>
  C4. When \<^verbatim>\<open>http.ListenAndServe\<close> returns an error (the port cannot be bound) while
  the tray has not quit, the process ends with status 1, and the server task has made a
  single call of \<^verbatim>\<open>ListenAndServe\<close>, logged the error and exited: the cause is logged,
  the exit status is not zero, and the bind is not tried again.
\<close>

theorem bind_failure_is_fatal:
  assumes "sub_err env = None" and "listen env = Some (k, e)"
    and "mQuit \<notin> fst ` set (take k clicks)"
  shows "status (main env clicks) = Exited 1
    \<and> server_trace (main env clicks) = [ListenAndServe '':8000'', Log e, OsExit 1]"
proof -
  have s: "seen_clicks env clicks = take k clicks"
    using assms(2) by (simp add: seen_clicks_def)
  define U where "U = format_url (getLANIP (ifaddrs env)) 8000"
  have "snd (select_loop (goos env) U (take k clicks)) = Waiting"
    using assms(3) by (simp add: select_loop_state)
  then obtain hs where l: "select_loop (goos env) U (take k clicks) = (hs, Waiting)"
    by (metis prod.collapse)
  show ?thesis
    using assms(1,2) l
    by (simp add: main_def Let_def startServer_def serve_task_def s U_def)
qed

text \<open>The port is taken at start-up, on Linux, and the user would click Open App and Quit.\<close>

theorem bind_failure_is_fatal_witness:
  "sub_err \<lparr>goos = ''linux'', ifaddrs = Inr [], sub_err = None,
       listen = Some (0, ''listen tcp :8000: bind: address already in use'')\<rparr> = None
   \<and> mQuit \<notin> fst ` set (take 0 [(mOpen, all_ok), (mQuit, all_ok)])
   \<and> status (main \<lparr>goos = ''linux'', ifaddrs = Inr [], sub_err = None,
       listen = Some (0, ''listen tcp :8000: bind: address already in use'')\<rparr>
       [(mOpen, all_ok), (mQuit, all_ok)]) = Exited 1
   \<and> server_trace (main \<lparr>goos = ''linux'', ifaddrs = Inr [], sub_err = None,
       listen = Some (0, ''listen tcp :8000: bind: address already in use'')\<rparr>
       [(mOpen, all_ok), (mQuit, all_ok)])
     = [ListenAndServe '':8000'', Log ''listen tcp :8000: bind: address already in use'',
        OsExit 1]"
  using bind_failure_is_fatal [of "\<lparr>goos = ''linux'', ifaddrs = Inr [], sub_err = None,
       listen = Some (0, ''listen tcp :8000: bind: address already in use'')\<rparr>"
       0 "''listen tcp :8000: bind: address already in use''" "[(mOpen, all_ok), (mQuit, all_ok)]"]
  by simp

subsection \<open>C5: one handler per click, in order\<close>

text \<open>
  C5, as amended. The dispatch loop handles exactly the clicks up to and including the
  first Quit, in the order received, each by the handler bound to its menu item, and the
  events of the loop are the events of these handlers one after the other (no two
  overlap). For a sequence of N clicks in which Quit does not occur before the last
  position, that is all N clicks: N handlers, in the order of the sequence.
\<close>

theorem select_loop_serial:
  "fst (select_loop os url clicks) = map (handler os url) (upto_quit clicks)
   \<and> concat (map snd (fst (select_loop os url clicks)))
       = concat (map (\<lambda>p. on_click os url (fst p) (snd p)) (upto_quit clicks))
   \<and> (mQuit \<notin> set (butlast (map fst clicks)) \<longrightarrow>
        upto_quit clicks = clicks
        \<and> length (fst (select_loop os url clicks)) = length clicks
        \<and> map fst (fst (select_loop os url clicks)) = map fst clicks)"
proof -
  have a: "fst (select_loop os url clicks) = map (handler os url) (upto_quit clicks)"
    by (rule select_loop_handled)
  have b: "concat (map snd (map (handler os url) cs))
      = concat (map (\<lambda>p. on_click os url (fst p) (snd p)) cs)" for cs
    by (induction cs) (simp_all add: handler_def)
  have c: "map fst (map (handler os url) cs) = map fst cs" for cs
    by (induction cs) (simp_all add: handler_def)
  have d: "upto_quit clicks = clicks" if "mQuit \<notin> set (butlast (map fst clicks))"
    using that by (rule upto_quit_all)
  show ?thesis
    unfolding a using b [of "upto_quit clicks"] c [of clicks] d by auto
qed

text \<open>Copy, Open, Quit on macOS: three clicks, three handlers, in that order.\<close>

theorem select_loop_serial_witness:
  "mQuit \<notin> set (butlast (map fst [(mCopy, all_ok), (mOpen, all_ok), (mQuit, all_ok)]))
   \<and> fst (select_loop ''darwin'' ''http://192.168.1.5:8000''
         [(mCopy, all_ok), (mOpen, all_ok), (mQuit, all_ok)])
     = [(mCopy, [Run ''pbcopy'' [] (Some ''http://192.168.1.5:8000'')]),
        (mOpen, [Start ''open'' [''http://localhost:8000'']]),
        (mQuit, [SystrayQuit])]"
proof -
  have h: "mQuit \<notin> set (butlast (map fst [(mCopy, all_ok), (mOpen, all_ok), (mQuit, all_ok)]))"
    by simp
  show ?thesis
    using h select_loop_serial [of "''darwin''" "''http://192.168.1.5:8000''"
        "[(mCopy, all_ok), (mOpen, all_ok), (mQuit, all_ok)]"]
    by (simp add: handler_def on_click_def openBrowser_def failed_to_open_def all_ok_def)
qed

text \<open>
  C5 as stated fails: of the two clicks Quit, Open App only the first is handled; the
  loop returns after Quit and the second click gets no handler.
\<close>

theorem quit_first_drops_the_rest:
  "length [(mQuit, all_ok), (mOpen, all_ok)] = 2
   \<and> select_loop ''linux'' ''http://192.168.1.5:8000'' [(mQuit, all_ok), (mOpen, all_ok)]
     = ([(mQuit, [SystrayQuit])], Returned)"
  by (simp add: on_click_def)

subsection \<open>C6: Open App, then Quit\<close>

text \<open>
  C6. When the clicks begin with Open App and Quit, the server task serving meanwhile,
  the loop handles exactly these two: the opener is called once, with the fixed URL
  \<^verbatim>\<open>http://localhost:8000\<close> (on Linux, Windows and macOS that is one started command
  whose last argument is the URL), then \<^verbatim>\<open>systray.Quit()\<close> is called and the loop
  returns. Whatever clicks follow leave no event, and the process ends with status 0.
\<close>

theorem open_then_quit:
  assumes "sub_err env = None" and "still_serving env 2"
  shows "select_loop (goos env) url ((mOpen, oc1) # (mQuit, oc2) # rest)
      = ([(mOpen, openBrowser (goos env) ''http://localhost:8000'' (start_err oc1)),
          (mQuit, [SystrayQuit])], Returned)
    \<and> main_trace (main env ((mOpen, oc1) # (mQuit, oc2) # rest))
      = [Assign_lanURL (format_url (getLANIP (ifaddrs env)) 8000),
         Println (''Serving at: '' @ format_url (getLANIP (ifaddrs env)) 8000),
         HttpHandle ''/'', GoServer]
        @ onReady_setup
        @ openBrowser (goos env) ''http://localhost:8000'' (start_err oc1)
        @ [SystrayQuit]
    \<and> status (main env ((mOpen, oc1) # (mQuit, oc2) # rest)) = Exited 0
    \<and> (supported (goos env) \<longrightarrow>
         (\<exists>cmd pre. filter is_call (openBrowser (goos env) ''http://localhost:8000'' (start_err oc1))
            = [Start cmd (pre @ [''http://localhost:8000''])]))"
proof -
  have p: "upto_quit (seen_clicks env ([(mOpen, oc1), (mQuit, oc2)] @ rest))
        = upto_quit [(mOpen, oc1), (mQuit, oc2)]
      \<and> mQuit \<in> fst ` set (seen_clicks env ([(mOpen, oc1), (mQuit, oc2)] @ rest))"
    by (rule seen_clicks_prefix) (use assms(2) in \<open>simp_all add: numeral_2_eq_2\<close>)
  have 1: "select_loop (goos env) url ((mOpen, oc1) # (mQuit, oc2) # rest)
      = ([(mOpen, openBrowser (goos env) ''http://localhost:8000'' (start_err oc1)),
          (mQuit, [SystrayQuit])], Returned)"
    by (simp add: on_click_def)
  have 2: "main_trace (main env ((mOpen, oc1) # (mQuit, oc2) # rest))
      = [Assign_lanURL (format_url (getLANIP (ifaddrs env)) 8000),
         Println (''Serving at: '' @ format_url (getLANIP (ifaddrs env)) 8000),
         HttpHandle ''/'', GoServer]
        @ onReady_setup
        @ openBrowser (goos env) ''http://localhost:8000'' (start_err oc1)
        @ [SystrayQuit]"
    using p assms(1) by (simp add: main_trace_eq startServer_def on_click_def)
  have 3: "status (main env ((mOpen, oc1) # (mQuit, oc2) # rest)) = Exited 0"
    using p assms(1) by (simp add: status_eq)
  have 4: "\<exists>cmd pre. filter is_call (openBrowser (goos env) ''http://localhost:8000'' (start_err oc1))
            = [Start cmd (pre @ [''http://localhost:8000''])]" if "supported (goos env)"
  proof -
    have f: "filter is_call (failed_to_open err) = []" for err
      by (simp add: failed_to_open_def is_call_def split: option.splits)
    from that consider "goos env = ''linux''" | "goos env = ''windows''" | "goos env = ''darwin''"
      by (auto simp: supported_def)
    then show ?thesis
    proof cases
      case 1
      then have "filter is_call (openBrowser (goos env) ''http://localhost:8000'' (start_err oc1))
        = [Start ''xdg-open'' ([] @ [''http://localhost:8000''])]"
        by (simp add: openBrowser_def is_call_def f)
      then show ?thesis by blast
    next
      case 2
      then have "filter is_call (openBrowser (goos env) ''http://localhost:8000'' (start_err oc1))
        = [Start ''rundll32'' ([''url.dll,FileProtocolHandler''] @ [''http://localhost:8000''])]"
        by (simp add: openBrowser_def is_call_def f)
      then show ?thesis by blast
    next
      case 3
      then have "filter is_call (openBrowser (goos env) ''http://localhost:8000'' (start_err oc1))
        = [Start ''open'' ([] @ [''http://localhost:8000''])]"
        by (simp add: openBrowser_def is_call_def f)
      then show ?thesis by blast
    qed
  qed
  show ?thesis using 1 2 3 4 by blast
qed

text \<open>The specification's scenario on Linux, with a Copy click after Quit that is never handled.\<close>

theorem open_then_quit_witness:
  "sub_err \<lparr>goos = ''linux'',
       ifaddrs = Inr [IPNet [127,0,0,1] [255,0,0,0], IPNet [192,168,1,5] [255,255,255,0]],
       sub_err = None, listen = None\<rparr> = None
   \<and> still_serving \<lparr>goos = ''linux'',
       ifaddrs = Inr [IPNet [127,0,0,1] [255,0,0,0], IPNet [192,168,1,5] [255,255,255,0]],
       sub_err = None, listen = None\<rparr> 2
   \<and> main_trace (main \<lparr>goos = ''linux'',
       ifaddrs = Inr [IPNet [127,0,0,1] [255,0,0,0], IPNet [192,168,1,5] [255,255,255,0]],
       sub_err = None, listen = None\<rparr>
       [(mOpen, all_ok), (mQuit, all_ok), (mCopy, all_ok)])
     = [Assign_lanURL ''http://192.168.1.5:8000'',
        Println ''Serving at: http://192.168.1.5:8000'', HttpHandle ''/'', GoServer]
       @ onReady_setup @ [Start ''xdg-open'' [''http://localhost:8000''], SystrayQuit]
   \<and> status (main \<lparr>goos = ''linux'',
       ifaddrs = Inr [IPNet [127,0,0,1] [255,0,0,0], IPNet [192,168,1,5] [255,255,255,0]],
       sub_err = None, listen = None\<rparr>
       [(mOpen, all_ok), (mQuit, all_ok), (mCopy, all_ok)]) = Exited 0"
proof -
  have h: "getLANIP (Inr [IPNet [127,0,0,1] [255,0,0,0], IPNet [192,168,1,5] [255,255,255,0]])
      = ''192.168.1.5''"
    by (simp add: getLANIP_def To4_def IsLoopback_def IP_String_def uitoa.simps digit_def)
  show ?thesis
    using open_then_quit [of "\<lparr>goos = ''linux'',
       ifaddrs = Inr [IPNet [127,0,0,1] [255,0,0,0], IPNet [192,168,1,5] [255,255,255,0]],
       sub_err = None, listen = None\<rparr>" "''http://192.168.1.5:8000''" all_ok all_ok "[(mCopy, all_ok)]"]
    by (simp add: still_serving_def h format_url_8000 openBrowser_def failed_to_open_def all_ok_def)
qed

subsection \<open>C7: failures of external calls\<close>

text \<open>
  C7, as amended. A failure of an external call never ends the loop or the process and is
  never retried: a handler makes the same external invocations whether they fail or not,
  and the loop handles the same clicks, ends in the same state and leaves the process in
  the same status as in the run where every call succeeds. Only a failed start of the
  opener (the browser, or the viewer of the QR image) is logged: on Linux, Windows and
  macOS the handlers of Open App and Show QR Code then log the one line
  \<^verbatim>\<open>Failed to open browser: <error>\<close>. A failure of the clipboard command or of the QR
  file write is discarded: the handlers of Copy LAN URL and Quit log nothing whatever the
  outcome, and no handler logs anything when the opener starts.
\<close>

theorem failures_are_swallowed:
  "on_click os url c oc = on_click os url c all_ok @ opener_log os c oc
   \<and> (supported os \<and> (c = mOpen \<or> c = mQR) \<and> start_err oc = Some e \<longrightarrow>
        filter is_log (on_click os url c oc) = [Log (''Failed to open browser: '' @ e)])
   \<and> (c = mCopy \<or> c = mQuit \<or> start_err oc = None \<or> \<not> supported os \<longrightarrow>
        filter is_log (on_click os url c oc) = [])
   \<and> filter is_call (concat (map snd (fst (select_loop os url clicks))))
     = filter is_call (concat (map snd (fst (select_loop os url (succeeding clicks)))))
   \<and> map fst (fst (select_loop os url clicks))
     = map fst (fst (select_loop os url (succeeding clicks)))
   \<and> snd (select_loop os url clicks) = snd (select_loop os url (succeeding clicks))
   \<and> status (main env clicks) = status (main env (succeeding clicks))"
proof -
  have c: "map fst (map (handler os url) cs) = map fst cs" for cs
    by (induction cs) (simp_all add: handler_def)
  have 1: "filter is_log (on_click os url c oc) = [Log (''Failed to open browser: '' @ e)]"
    if "supported os \<and> (c = mOpen \<or> c = mQR) \<and> start_err oc = Some e"
    using that by (simp add: on_click_logged opener_log_def)
  have 0: "filter is_log (on_click os url c oc) = []"
    if "c = mCopy \<or> c = mQuit \<or> start_err oc = None \<or> \<not> supported os"
    using that by (auto simp: on_click_logged opener_log_def)
  have 2: "filter is_call (concat (map snd (fst (select_loop os url clicks))))
     = filter is_call (concat (map snd (fst (select_loop os url (succeeding clicks)))))"
    by (simp only: select_loop_handled handler_events upto_quit_succeeding_calls)
  have 3: "map fst (fst (select_loop os url clicks))
     = map fst (fst (select_loop os url (succeeding clicks)))"
    by (simp only: select_loop_handled c upto_quit_succeeding)
  have 4: "snd (select_loop os url clicks) = snd (select_loop os url (succeeding clicks))"
    by (simp only: select_loop_state succeeding_clicks)
  have 5: "status (main env clicks) = status (main env (succeeding clicks))"
    by (simp only: status_eq seen_clicks_succeeding succeeding_clicks)
  show ?thesis using on_click_log [of os url c oc] 0 1 2 3 4 5 by blast
qed

text \<open>
  On Linux the opener cannot be started, for Open App and for Show QR Code: each handler
  logs the one line and makes the calls of the successful run. A failing clipboard
  command is not logged.
\<close>

theorem failures_are_swallowed_witness:
  "supported ''linux''
   \<and> start_err \<lparr>start_err = Some ''executable file not found'', run_err = None,
        write_err = None\<rparr> = Some ''executable file not found''
   \<and> on_click ''linux'' ''http://192.168.1.5:8000'' mOpen
        \<lparr>start_err = Some ''executable file not found'', run_err = None, write_err = None\<rparr>
     = [Start ''xdg-open'' [''http://localhost:8000''],
        Log ''Failed to open browser: executable file not found'']
   \<and> filter is_log (on_click ''linux'' ''http://192.168.1.5:8000'' mQR
        \<lparr>start_err = Some ''executable file not found'', run_err = None, write_err = None\<rparr>)
     = [Log ''Failed to open browser: executable file not found'']
   \<and> filter is_log (on_click ''linux'' ''http://192.168.1.5:8000'' mCopy
        \<lparr>start_err = None, run_err = Some ''exit status 1'', write_err = None\<rparr>) = []"
proof -
  define bad :: outcome where
    "bad = \<lparr>start_err = Some ''executable file not found'', run_err = None, write_err = None\<rparr>"
  define clip :: outcome where
    "clip = \<lparr>start_err = None, run_err = Some ''exit status 1'', write_err = None\<rparr>"
  define e0 :: env where
    "e0 = \<lparr>goos = ''linux'', ifaddrs = Inr [], sub_err = None, listen = None\<rparr>"
  have s: "supported ''linux''"
    by (simp add: supported_def)
  have b: "start_err bad = Some ''executable file not found''"
    by (simp add: bad_def)
  have o: "on_click ''linux'' ''http://192.168.1.5:8000'' mOpen all_ok
      = [Start ''xdg-open'' [''http://localhost:8000'']]"
    by (simp add: on_click_def openBrowser_def failed_to_open_def all_ok_def)
  have l: "opener_log ''linux'' mOpen bad
      = [Log ''Failed to open browser: executable file not found'']"
    by (simp add: opener_log_def supported_def bad_def)
  have "on_click ''linux'' ''http://192.168.1.5:8000'' mOpen bad
      = on_click ''linux'' ''http://192.168.1.5:8000'' mOpen all_ok @ opener_log ''linux'' mOpen bad"
    using failures_are_swallowed [of "''linux''" "''http://192.168.1.5:8000''" mOpen bad
        "''executable file not found''" "[]" e0]
    by (rule conjunct1)
  then have 1: "on_click ''linux'' ''http://192.168.1.5:8000'' mOpen bad
      = [Start ''xdg-open'' [''http://localhost:8000''],
         Log ''Failed to open browser: executable file not found'']"
    by (simp add: o l)
  have 2: "filter is_log (on_click ''linux'' ''http://192.168.1.5:8000'' mQR bad)
      = [Log (''Failed to open browser: '' @ ''executable file not found'')]"
    using failures_are_swallowed [of "''linux''" "''http://192.168.1.5:8000''" mQR bad
        "''executable file not found''" "[]" e0] s b
    by blast
  have 3: "filter is_log (on_click ''linux'' ''http://192.168.1.5:8000'' mCopy clip) = []"
    using failures_are_swallowed [of "''linux''" "''http://192.168.1.5:8000''" mCopy clip
        "''exit status 1''" "[]" e0]
    by blast
  show ?thesis
    using s b 1 2 3 by (simp add: bad_def clip_def)
qed

text \<open>
  C7 as stated fails: on Linux a failing clipboard command and a failing QR file write
  leave exactly the events of the successful calls, with no log line among them.
\<close>

theorem discarded_failures_leave_no_log:
  "on_click ''linux'' ''http://192.168.1.5:8000'' mCopy
       \<lparr>start_err = None, run_err = Some ''exit status 1'', write_err = None\<rparr>
     = [Run ''xclip'' [''-selection'', ''clipboard''] (Some ''http://192.168.1.5:8000'')]
   \<and> on_click ''linux'' ''http://192.168.1.5:8000'' mQR
       \<lparr>start_err = None, run_err = None, write_err = Some ''permission denied''\<rparr>
     = [QRWriteFile ''http://192.168.1.5:8000'' Medium 256 ''lan_qr.png'',
        Start ''xdg-open'' [''lan_qr.png'']]"
  by (simp add: on_click_def openBrowser_def failed_to_open_def)

subsection \<open>C8: what Copy LAN URL hands to the clipboard\<close>

text \<open>
  C8. On macOS and on Linux the handler of Copy LAN URL writes the LAN URL itself to the
  standard input of the clipboard utility. On Windows it does not: it runs
  \<^verbatim>\<open>cmd /c "echo <url>| clip"\<close>, so what \<^verbatim>\<open>clip\<close> receives is the output of
  \<^verbatim>\<open>echo\<close> for the URL, not the URL handed over as it is. The three runs below share
  the interfaces of the specification's scenario.
\<close>

theorem copy_url_on_windows_goes_through_echo:
  "filter is_call (main_trace (main \<lparr>goos = ''windows'',
       ifaddrs = Inr [IPNet [127,0,0,1] [255,0,0,0], IPNet [192,168,1,5] [255,255,255,0]],
       sub_err = None, listen = None\<rparr> [(mCopy, all_ok)]))
     = [Run ''cmd'' [''/c'', ''echo http://192.168.1.5:8000| clip''] None]
   \<and> filter is_call (main_trace (main \<lparr>goos = ''darwin'',
       ifaddrs = Inr [IPNet [127,0,0,1] [255,0,0,0], IPNet [192,168,1,5] [255,255,255,0]],
       sub_err = None, listen = None\<rparr> [(mCopy, all_ok)]))
     = [Run ''pbcopy'' [] (Some ''http://192.168.1.5:8000'')]
   \<and> filter is_call (main_trace (main \<lparr>goos = ''linux'',
       ifaddrs = Inr [IPNet [127,0,0,1] [255,0,0,0], IPNet [192,168,1,5] [255,255,255,0]],
       sub_err = None, listen = None\<rparr> [(mCopy, all_ok)]))
     = [Run ''xclip'' [''-selection'', ''clipboard''] (Some ''http://192.168.1.5:8000'')]"
proof -
  have h: "getLANIP (Inr [IPNet [127,0,0,1] [255,0,0,0], IPNet [192,168,1,5] [255,255,255,0]])
      = ''192.168.1.5''"
    by (simp add: getLANIP_def To4_def IsLoopback_def IP_String_def uitoa.simps digit_def)
  show ?thesis
    by (simp add: main_trace_eq h format_url_8000 startServer_def onReady_setup_def
        seen_clicks_def on_click_def is_call_def)
qed

subsection \<open>C9: Copy LAN URL with an empty host\<close>

text \<open>
  C9, as amended. When no interface qualifies the host is empty and the LAN URL is the
  malformed \<^verbatim>\<open>http://:8000\<close>. A click on Copy LAN URL then still runs the clipboard
  command of the platform, with that text as the value to copy; nothing is logged, and the
  process goes on as if there had been no click.
\<close>

theorem copy_with_empty_host:
  assumes "getLANIP (ifaddrs env) = []" and "sub_err env = None" and "still_serving env 1"
  shows "format_url (getLANIP (ifaddrs env)) 8000 = ''http://:8000''
    \<and> filter is_call (main_trace (main env [(mCopy, oc)]))
      = (if goos env = ''windows'' then [Run ''cmd'' [''/c'', ''echo http://:8000| clip''] None]
         else if goos env = ''darwin'' then [Run ''pbcopy'' [] (Some ''http://:8000'')]
         else [Run ''xclip'' [''-selection'', ''clipboard''] (Some ''http://:8000'')])
    \<and> filter is_log (main_trace (main env [(mCopy, oc)])) = []
    \<and> status (main env [(mCopy, oc)]) = status (main env [])"
proof -
  have u: "format_url (getLANIP (ifaddrs env)) 8000 = ''http://:8000''"
    using assms(1) by (simp add: format_url_8000)
  have s: "seen_clicks env [(mCopy, oc)] = [(mCopy, oc)]"
    using assms(3) by (auto simp: seen_clicks_def still_serving_def split: option.splits)
  have s0: "seen_clicks env [] = []"
    by (simp add: seen_clicks_def split: option.splits)
  have 2: "filter is_call (main_trace (main env [(mCopy, oc)]))
      = (if goos env = ''windows'' then [Run ''cmd'' [''/c'', ''echo http://:8000| clip''] None]
         else if goos env = ''darwin'' then [Run ''pbcopy'' [] (Some ''http://:8000'')]
         else [Run ''xclip'' [''-selection'', ''clipboard''] (Some ''http://:8000'')])"
    using assms(2)
    by (simp add: main_trace_eq u s startServer_def onReady_setup_def on_click_def is_call_def)
  have 3: "filter is_log (main_trace (main env [(mCopy, oc)])) = []"
    using assms(2)
    by (simp add: main_trace_eq u s startServer_def onReady_setup_def on_click_def is_log_def)
  have 4: "status (main env [(mCopy, oc)]) = status (main env [])"
    by (simp add: status_eq s s0)
  show ?thesis using u 2 3 4 by blast
qed

text \<open>macOS with the loopback interface only.\<close>

theorem copy_with_empty_host_witness:
  "getLANIP (ifaddrs \<lparr>goos = ''darwin'', ifaddrs = Inr [IPNet [127,0,0,1] [255,0,0,0]],
       sub_err = None, listen = None\<rparr>) = []
   \<and> still_serving \<lparr>goos = ''darwin'', ifaddrs = Inr [IPNet [127,0,0,1] [255,0,0,0]],
       sub_err = None, listen = None\<rparr> 1
   \<and> filter is_call (main_trace (main \<lparr>goos = ''darwin'',
       ifaddrs = Inr [IPNet [127,0,0,1] [255,0,0,0]], sub_err = None, listen = None\<rparr>
       [(mCopy, all_ok)]))
     = [Run ''pbcopy'' [] (Some ''http://:8000'')]
   \<and> filter is_log (main_trace (main \<lparr>goos = ''darwin'',
       ifaddrs = Inr [IPNet [127,0,0,1] [255,0,0,0]], sub_err = None, listen = None\<rparr>
       [(mCopy, all_ok)])) = []"
proof -
  have h: "getLANIP (Inr [IPNet [127,0,0,1] [255,0,0,0]]) = []"
    by (simp add: getLANIP_def To4_def IsLoopback_def)
  have s: "still_serving \<lparr>goos = ''darwin'', ifaddrs = Inr [IPNet [127,0,0,1] [255,0,0,0]],
       sub_err = None, listen = None\<rparr> 1"
    by (simp add: still_serving_def)
  show ?thesis
    using h s copy_with_empty_host [of "\<lparr>goos = ''darwin'',
       ifaddrs = Inr [IPNet [127,0,0,1] [255,0,0,0]], sub_err = None, listen = None\<rparr>" all_ok]
    by simp
qed

text \<open>
  C9 as stated fails: with no interface at all the click is not without effect, the
  clipboard command is run with \<^verbatim>\<open>http://:8000\<close>, whereas the run without the click
  makes no external call.
\<close>

theorem copy_with_empty_host_has_an_effect:
  "getLANIP (Inr []) = []
   \<and> filter is_call (main_trace (main \<lparr>goos = ''linux'', ifaddrs = Inr [], sub_err = None,
        listen = None\<rparr> [(mCopy, all_ok)]))
     = [Run ''xclip'' [''-selection'', ''clipboard''] (Some ''http://:8000'')]
   \<and> filter is_call (main_trace (main \<lparr>goos = ''linux'', ifaddrs = Inr [], sub_err = None,
        listen = None\<rparr> [])) = []"
  by (simp add: main_trace_eq getLANIP_def format_url_8000 startServer_def onReady_setup_def
      seen_clicks_def on_click_def is_call_def)

subsection \<open>C10: the global lanURL\<close>

text \<open>
  C10. The events of the main and dispatch goroutines begin with the assignment of
  \<^verbatim>\<open>http://<host>:8000\<close> to \<^verbatim>\<open>lanURL\<close>; the launch of the server task, the set-up of
  the menu and the handlers come after it, and every handler runs with that same value.
  The assignment is the only one in the run: no other event of the main trace and no
  event of the server task writes the variable.
\<close>

theorem lanURL_assigned_once:
  "main_trace (main env clicks) =
     [Assign_lanURL (format_url (getLANIP (ifaddrs env)) 8000),
      Println (''Serving at: '' @ format_url (getLANIP (ifaddrs env)) 8000)]
     @ fst (startServer (sub_err env))
     @ (if sub_err env = None
        then onReady_setup
          @ concat (map (\<lambda>p. on_click (goos env) (format_url (getLANIP (ifaddrs env)) 8000)
                (fst p) (snd p)) (upto_quit (seen_clicks env clicks)))
        else [])
   \<and> filter is_assign (main_trace (main env clicks))
     = [Assign_lanURL (format_url (getLANIP (ifaddrs env)) 8000)]
   \<and> filter is_assign (server_trace (main env clicks)) = []
   \<and> format_url (getLANIP (ifaddrs env)) 8000 = ''http://'' @ getLANIP (ifaddrs env) @ '':8000''"
proof -
  define U where "U = format_url (getLANIP (ifaddrs env)) 8000"
  have a: "filter is_assign (fst (startServer e)) = []" for e
    by (simp add: startServer_def is_assign_def split: option.splits)
  have b: "filter is_assign onReady_setup = []"
    by (simp add: onReady_setup_def is_assign_def)
  have c: "filter is_assign (concat (map (\<lambda>p. on_click (goos env) U (fst p) (snd p)) cs)) = []" for cs
    by (induction cs) (simp_all add: on_click_no_assign)
  have d: "filter is_assign (serve_task r) = []" for r
    by (simp add: serve_task_def is_assign_def split: option.splits)
  have 2: "filter is_assign (main_trace (main env clicks)) = [Assign_lanURL U]"
    unfolding main_trace_eq U_def [symmetric]
    by (simp add: a b c is_assign_def)
  obtain hs ls where l: "select_loop (goos env) U (seen_clicks env clicks) = (hs, ls)"
    by (cases "select_loop (goos env) U (seen_clicks env clicks)")
  have 3: "filter is_assign (server_trace (main env clicks)) = []"
    using l d
    by (cases "sub_err env"; cases "listen env")
      (simp_all add: main_def Let_def startServer_def U_def [symmetric] split: prod.splits)
  show ?thesis
    using main_trace_eq [of env clicks] 2 3 format_url_8000 [of "getLANIP (ifaddrs env)"]
    unfolding U_def by blast
qed

end
